theory Spec2Isabelle
  imports Complex_Main
begin

section \<open>Values: float64 cells in exact arithmetic\<close>

text \<open>
  The program computes on numpy float64 values. A cell of the pivoted table that has no
  row is NaN, a division by zero gives an infinity (numpy warns and goes on, it does not
  raise) and NaN propagates through every operation. The model keeps these special
  values and computes the finite ones exactly, as rationals: rounding error, overflow
  and the sign of zero are outside the model.
\<close>

datatype fl = Fin rat | PInf | NInf | NaN

fun sign_of :: "fl \<Rightarrow> rat" where
  "sign_of (Fin a) = sgn a"
| "sign_of PInf = 1"
| "sign_of NInf = - 1"
| "sign_of NaN = 0"

definition inf_of_sign :: "rat \<Rightarrow> fl" where
  "inf_of_sign s = (if 0 < s then PInf else if s < 0 then NInf else NaN)"

fun fmul :: "fl \<Rightarrow> fl \<Rightarrow> fl" where
  "fmul (Fin a) (Fin b) = Fin (a * b)"
| "fmul NaN y = NaN"
| "fmul x NaN = NaN"
| "fmul x y = inf_of_sign (sign_of x * sign_of y)"

fun fdiv :: "fl \<Rightarrow> fl \<Rightarrow> fl" where
  "fdiv (Fin a) (Fin b) = (if b = 0 then inf_of_sign a else Fin (a / b))"
| "fdiv NaN y = NaN"
| "fdiv x NaN = NaN"
| "fdiv (Fin a) y = Fin 0"
| "fdiv x (Fin b) = (if b < 0 then inf_of_sign (- sign_of x) else x)"
| "fdiv x y = NaN"

fun fsub :: "fl \<Rightarrow> fl \<Rightarrow> fl" where
  "fsub (Fin a) (Fin b) = Fin (a - b)"
| "fsub NaN y = NaN"
| "fsub x NaN = NaN"
| "fsub PInf PInf = NaN"
| "fsub NInf NInf = NaN"
| "fsub (Fin a) PInf = NInf"
| "fsub (Fin a) NInf = PInf"
| "fsub x y = x"

text \<open>
  \<open>round(x, 2)\<close> on a numpy float64 scales by 100, rounds to the nearest integer with
  ties to the even one, and scales back; NaN and the infinities are returned as they are.
\<close>

definition round_half_even :: "rat \<Rightarrow> int" where
  "round_half_even q =
     (let f = \<lfloor>q\<rfloor>; r = q - of_int f
      in if r < 1 / 2 then f else if 1 / 2 < r then f + 1
         else if even f then f else f + 1)"

fun round2 :: "fl \<Rightarrow> fl" where
  "round2 (Fin q) = Fin (of_int (round_half_even (q * 100)) / 100)"
| "round2 x = x"

section \<open>Tables\<close>

text \<open>
  Dates are day numbers (the proleptic Gregorian ordinal of \<open>datetime.date\<close>), so that
  \<open>timedelta(days=-n)\<close> is a subtraction. A row of \<open>prices.csv\<close> has a date, a ticker
  and a close price; a row of \<open>ticker_changes.csv\<close> an old ticker, a new ticker and an
  effective date; a row of \<open>splits.csv\<close> a ticker, an effective date and two quantities
  (fields \<open>s_ticker\<close> and \<open>s_effective_date\<close>, the names \<open>ticker\<close> and
  \<open>effective_date\<close> being taken by the other two tables).
\<close>

type_synonym date = int

record price_row =
  date :: date
  ticker :: string
  close_price :: rat

record ticker_change =
  old_ticker :: string
  new_ticker :: string
  effective_date :: date

record split =
  s_ticker :: string
  s_effective_date :: date
  from_quantity :: rat
  to_quantity :: rat

text \<open>
  A pandas Series with a date index is a list of (date, value) pairs in index order. A
  DataFrame is its index, its column labels and the value of each cell.
\<close>

type_synonym series = "(date \<times> fl) list"

record dataframe =
  index :: "date list"
  columns :: "string list"
  cell :: "date \<Rightarrow> string \<Rightarrow> fl"

datatype error =
    ValueError_header string
  | ValueError_arguments
  | ValueError_ticker string
  | ValueError_timeframe string
  | KeyError string
  | IndexError

section \<open>transform_prices_to_DataFrame\<close>

definition df_headers_expected :: "string list" where
  "df_headers_expected = [''date'', ''ticker'', ''close_price'']"

text \<open>
  \<open>pd.pivot_table(values='close_price', index=['date'], columns='ticker')\<close> is called
  without \<open>aggfunc\<close>, whose default is the mean: the rows are grouped by (date, ticker),
  each group is averaged, and the groups are laid out with the sorted dates as index. A
  (date, ticker) pair with no row is NaN. Every row has a date, a ticker and a number as
  close price; dates are already parsed, so that the order of the date strings in the
  file is the order of the days. Only membership in \<open>columns\<close> is ever used, so the
  column labels are kept in the order of their first row.
\<close>

definition mean :: "rat list \<Rightarrow> fl" where
  "mean ps = (if ps = [] then NaN else Fin (sum_list ps / of_nat (length ps)))"

definition pivot_table :: "price_row list \<Rightarrow> dataframe" where
  "pivot_table rows =
     \<lparr> index = sort (remdups (map date rows)),
       columns = remdups (map ticker rows),
       cell = (\<lambda>d t. mean (map close_price (filter (\<lambda>r. date r = d \<and> ticker r = t) rows))) \<rparr>"

text \<open>
  Reading the csv file is not part of the function here: \<open>headers\<close> are the column
  names of the file and \<open>rows\<close> its parsed rows. The first header that is not expected
  raises.
\<close>

definition transform_prices_to_DataFrame :: "string list \<Rightarrow> price_row list \<Rightarrow> error + dataframe" where
  "transform_prices_to_DataFrame headers rows =
     (case find (\<lambda>header. header \<notin> set df_headers_expected) headers of
        Some header \<Rightarrow> Inl (ValueError_header header)
      | None \<Rightarrow> Inr (pivot_table rows))"

section \<open>Slicing\<close>

text \<open>
  Label slices on a sorted date index keep both ends: \<open>s[:e]\<close> is the rows with a date
  up to and including \<open>e\<close>, \<open>s[b:]\<close> the rows from \<open>b\<close> on, whether or not the label is
  a date of the index. \<open>s[:-1]\<close> is positional and drops the last row.
\<close>

definition slice_to :: "series \<Rightarrow> date \<Rightarrow> series" where
  "slice_to s e = filter (\<lambda>x. fst x \<le> e) s"

definition slice_from :: "series \<Rightarrow> date \<Rightarrow> series" where
  "slice_from s b = filter (\<lambda>x. b \<le> fst x) s"

definition df_slice_to :: "dataframe \<Rightarrow> date \<Rightarrow> dataframe" where
  "df_slice_to df e = df \<lparr> index := filter (\<lambda>d. d \<le> e) (index df) \<rparr>"

definition getitem :: "dataframe \<Rightarrow> string \<Rightarrow> error + series" where
  "getitem df t =
     (if t \<in> set (columns df) then Inr (map (\<lambda>d. (d, cell df d t)) (index df))
      else Inl (KeyError t))"

section \<open>combine_changed_tickers\<close>

definition combine_changed_tickers :: "dataframe \<Rightarrow> string \<Rightarrow> string \<Rightarrow> date \<Rightarrow> error + series" where
  "combine_changed_tickers df_prices old new eff =
     (case getitem df_prices old of
        Inl e \<Rightarrow> Inl e
      | Inr col_old \<Rightarrow>
          (case getitem df_prices new of
             Inl e \<Rightarrow> Inl e
           | Inr col_new \<Rightarrow>
               Inr (butlast (slice_to col_old eff) @ slice_from col_new eff)))"

section \<open>The main program\<close>

text \<open>
  The fixed analysis end date \<open>2024-12-31\<close> as a day number, and the lookback table.
\<close>

definition analysis_end :: date where
  "analysis_end = 739251"

definition dict_timeframes :: "(string \<times> int) list" where
  "dict_timeframes = [(''1 day'', 1), (''5 days'', 5), (''6 months'', 183), (''1 year'', 365)]"

subsection \<open>Account for ticker changes\<close>

text \<open>
  The values of \<open>old_ticker\<close>, \<open>new_ticker\<close> and \<open>effective_date_ticker\<close> after the
  \<open>if\<close>/\<open>elif\<close>/\<open>else\<close>: \<open>.values[0]\<close> of the filtered table is its first row. The
  last branch assigns no effective date.
\<close>

definition resolve_tickers :: "ticker_change list \<Rightarrow> string \<Rightarrow> string \<times> string \<times> date option" where
  "resolve_tickers df_ticker_changes input_ticker =
     (if input_ticker \<in> set (map old_ticker df_ticker_changes) then
        (let df_ticker_changes_filtered = filter (\<lambda>r. old_ticker r = input_ticker) df_ticker_changes
         in (input_ticker, new_ticker (hd df_ticker_changes_filtered),
             Some (effective_date (hd df_ticker_changes_filtered))))
      else if input_ticker \<in> set (map new_ticker df_ticker_changes) then
        (let df_ticker_changes_filtered = filter (\<lambda>r. new_ticker r = input_ticker) df_ticker_changes
         in (old_ticker (hd df_ticker_changes_filtered), input_ticker,
             Some (effective_date (hd df_ticker_changes_filtered))))
      else (input_ticker, input_ticker, None))"

definition account_for_ticker_changes :: "dataframe \<Rightarrow> ticker_change list \<Rightarrow> string \<Rightarrow> error + series" where
  "account_for_ticker_changes df_prices df_ticker_changes input_ticker =
     (case resolve_tickers df_ticker_changes input_ticker of
        (old, new, Some eff) \<Rightarrow> combine_changed_tickers df_prices old new eff
      | (old, new, None) \<Rightarrow> getitem df_prices input_ticker)"

subsection \<open>Account for stock splits\<close>

text \<open>
  One turn of the loop over \<open>tickers\<close>: with a split row for \<open>t\<close>, the first such row
  gives the effective date and the ratio, and \<open>np.where\<close> multiplies the values whose
  index is on or after that date.
\<close>

definition split_step :: "split list \<Rightarrow> series \<Rightarrow> string \<Rightarrow> series" where
  "split_step df_splits df_series t =
     (if t \<in> set (map s_ticker df_splits) then
        (let df_split_filtered = filter (\<lambda>r. s_ticker r = t) df_splits;
             effective_date_split = s_effective_date (hd df_split_filtered);
             split_ratio = fdiv (Fin (to_quantity (hd df_split_filtered)))
                                (Fin (from_quantity (hd df_split_filtered)))
         in map (\<lambda>x. (fst x, if effective_date_split \<le> fst x then fmul (snd x) split_ratio
                               else snd x)) df_series)
      else df_series)"

text \<open>
  \<open>list(set([old_ticker, new_ticker]))\<close> has one element when the two are equal;
  otherwise the order in which a Python set of two strings is listed depends on the
  hash seed of the process, which the flag \<open>set_order\<close> stands for.
\<close>

definition tickers_of :: "bool \<Rightarrow> string \<Rightarrow> string \<Rightarrow> string list" where
  "tickers_of set_order old new =
     (if old = new then [old] else if set_order then [old, new] else [new, old])"

definition account_for_stock_splits :: "bool \<Rightarrow> split list \<Rightarrow> string \<Rightarrow> string \<Rightarrow> series \<Rightarrow> series" where
  "account_for_stock_splits set_order df_splits old new df_series =
     foldl (split_step df_splits) df_series (tickers_of set_order old new)"

subsection \<open>Compute return\<close>

text \<open>
  \<open>iloc[-1]\<close> and \<open>iloc[0]\<close> raise IndexError on an empty slice. Nothing else in these
  lines raises: the division and the rounding are float64 operations.
\<close>

definition compute_return :: "series \<Rightarrow> date \<Rightarrow> error + fl" where
  "compute_return df_series beginning_date =
     (let w = slice_from df_series beginning_date
      in if w = [] then Inl IndexError
         else (let t1 = snd (last w); t0 = snd (hd w)
               in Inr (round2 (fmul (fsub (fdiv t1 t0) (Fin 1)) (Fin 100)))))"

subsection \<open>The whole run\<close>

text \<open>
  \<open>pipeline\<close> is the program from the validation of \<open>sys.argv\<close> on, given the pivoted
  and clipped price table and the two other tables as read; its result is the value
  \<open>r\<close> that is printed. \<open>main\<close> puts the loading of the prices in front.
\<close>

definition pipeline :: "bool \<Rightarrow> dataframe \<Rightarrow> string list \<Rightarrow> ticker_change list \<Rightarrow> split list \<Rightarrow> error + fl" where
  "pipeline set_order df_prices argv df_ticker_changes df_splits =
     (if length argv < 2 then Inl ValueError_arguments
      else if length argv < 3 then Inl IndexError
      else (let input_ticker = argv ! 1; input_timeframe = argv ! 2
            in if input_ticker \<notin> set (columns df_prices) then Inl (ValueError_ticker input_ticker)
               else (case map_of dict_timeframes input_timeframe of
                       None \<Rightarrow> Inl (ValueError_timeframe input_timeframe)
                     | Some timeframe \<Rightarrow>
                         (case account_for_ticker_changes df_prices df_ticker_changes input_ticker of
                            Inl e \<Rightarrow> Inl e
                          | Inr df_series \<Rightarrow>
                              (case resolve_tickers df_ticker_changes input_ticker of
                                 (old, new, _) \<Rightarrow>
                                   compute_return
                                     (account_for_stock_splits set_order df_splits old new df_series)
                                     (analysis_end - timeframe))))))"

definition main :: "bool \<Rightarrow> string list \<Rightarrow> price_row list \<Rightarrow> string list \<Rightarrow> ticker_change list \<Rightarrow> split list \<Rightarrow> error + fl" where
  "main set_order headers rows argv df_ticker_changes df_splits =
     (case transform_prices_to_DataFrame headers rows of
        Inl e \<Rightarrow> Inl e
      | Inr df_prices \<Rightarrow>
          pipeline set_order (df_slice_to df_prices analysis_end) argv df_ticker_changes df_splits)"

section \<open>The stitched series of the specification\<close>

text \<open>
  The stitched series as the specification words it (4.3): the old ticker's column at
  the dates strictly before the effective date, then the new ticker's column at the
  dates on or after it. It is the reference that \<open>combine_changed_tickers\<close> is
  compared with.
\<close>

definition spec_stitch :: "dataframe \<Rightarrow> string \<Rightarrow> string \<Rightarrow> date \<Rightarrow> series" where
  "spec_stitch df old new eff =
     map (\<lambda>d. (d, cell df d old)) (filter (\<lambda>d. d < eff) (index df)) @
     map (\<lambda>d. (d, cell df d new)) (filter (\<lambda>d. eff \<le> d) (index df))"

section \<open>Example inputs\<close>

text \<open>
  A rename table in which \<open>BBB\<close> is both a new ticker (first row) and an old ticker
  (second and third row).
\<close>

definition ex_changes :: "ticker_change list" where
  "ex_changes =
     [\<lparr>old_ticker = ''AAA'', new_ticker = ''BBB'', effective_date = 10\<rparr>,
      \<lparr>old_ticker = ''BBB'', new_ticker = ''CCC'', effective_date = 20\<rparr>,
      \<lparr>old_ticker = ''BBB'', new_ticker = ''DDD'', effective_date = 30\<rparr>]"

text \<open>
  Price rows with two rows for the same date and ticker.
\<close>

definition ex_rows_dup :: "price_row list" where
  "ex_rows_dup =
     [\<lparr>date = 739250, ticker = ''AAA'', close_price = 100\<rparr>,
      \<lparr>date = 739251, ticker = ''AAA'', close_price = 110\<rparr>,
      \<lparr>date = 739251, ticker = ''AAA'', close_price = 114\<rparr>]"

text \<open>
  A series of four observations ending on the analysis end date.
\<close>

definition ex_series :: series where
  "ex_series = [(739240, Fin 90), (739246, Fin 100), (739250, Fin 104), (739251, Fin 110)]"


definition ex_xyz_splits :: "split list" where
  "ex_xyz_splits =
     [\<lparr>s_ticker = ''XYZ'', s_effective_date = 738580, from_quantity = 1, to_quantity = 2\<rparr>]"

text \<open>
  A split table with two rows for the same ticker.
\<close>

definition ex_splits :: "split list" where
  "ex_splits =
     [\<lparr>s_ticker = ''AAA'', s_effective_date = 739246, from_quantity = 1, to_quantity = 3\<rparr>,
      \<lparr>s_ticker = ''AAA'', s_effective_date = 739251, from_quantity = 1, to_quantity = 5\<rparr>]"

text \<open>
  A rename effective on Saturday 2024-12-28 (day 739248), a date with no price row:
  \<open>FB\<close> trades until Friday 2024-12-27, \<open>META\<close> from Monday 2024-12-30.
\<close>

definition ex_weekend_rows :: "price_row list" where
  "ex_weekend_rows =
     [\<lparr>date = 739240, ticker = ''FB'', close_price = 190\<rparr>,
      \<lparr>date = 739247, ticker = ''FB'', close_price = 200\<rparr>,
      \<lparr>date = 739250, ticker = ''META'', close_price = 212\<rparr>,
      \<lparr>date = 739251, ticker = ''META'', close_price = 214\<rparr>]"

definition ex_weekend_changes :: "ticker_change list" where
  "ex_weekend_changes = [\<lparr>old_ticker = ''FB'', new_ticker = ''META'', effective_date = 739248\<rparr>]"

text \<open>
  A rename effective on a date of the table, with prices on both sides; and the same
  prices table without any row of the new ticker.
\<close>

definition ex_changes_fb :: "ticker_change list" where
  "ex_changes_fb = [\<lparr>old_ticker = ''FB'', new_ticker = ''META'', effective_date = 739251\<rparr>]"

definition ex_meta_rows :: "price_row list" where
  "ex_meta_rows =
     [\<lparr>date = 739250, ticker = ''FB'', close_price = 200\<rparr>,
      \<lparr>date = 739251, ticker = ''META'', close_price = 210\<rparr>]"

definition ex_fb_only_rows :: "price_row list" where
  "ex_fb_only_rows =
     [\<lparr>date = 739250, ticker = ''FB'', close_price = 200\<rparr>,
      \<lparr>date = 739251, ticker = ''FB'', close_price = 210\<rparr>]"



section \<open>Lemmas on lists and values\<close>

lemma hd_filter_first:
  "\<exists>x\<in>set xs. P x \<Longrightarrow>
   \<exists>i<length xs. P (xs ! i) \<and> (\<forall>j<i. \<not> P (xs ! j)) \<and> hd (filter P xs) = xs ! i"
proof (induction xs)
  case Nil
  then show ?case by simp
next
  case (Cons x xs)
  show ?case
  proof (cases "P x")
    case True
    then have "P ((x # xs) ! 0) \<and> (\<forall>j<0. \<not> P ((x # xs) ! j)) \<and> hd (filter P (x # xs)) = (x # xs) ! 0"
      by simp
    then show ?thesis by blast
  next
    case False
    with Cons.prems have "\<exists>x\<in>set xs. P x" by auto
    from Cons.IH [OF this] obtain i where i: "i < length xs" "P (xs ! i)"
      "\<forall>j<i. \<not> P (xs ! j)" "hd (filter P xs) = xs ! i" by blast
    have "\<forall>j<Suc i. \<not> P ((x # xs) ! j)"
      using False i(3) by (auto simp: less_Suc_eq_0_disj)
    with i False have "Suc i < length (x # xs) \<and> P ((x # xs) ! Suc i) \<and>
        (\<forall>j<Suc i. \<not> P ((x # xs) ! j)) \<and> hd (filter P (x # xs)) = (x # xs) ! Suc i"
      by simp
    then show ?thesis by blast
  qed
qed

lemma hd_filter_nth:
  "i < length xs \<Longrightarrow> P (xs ! i) \<Longrightarrow> \<forall>j<i. \<not> P (xs ! j) \<Longrightarrow> hd (filter P xs) = xs ! i"
proof (induction xs arbitrary: i)
  case Nil
  then show ?case by simp
next
  case (Cons x xs)
  show ?case
  proof (cases i)
    case 0
    with Cons.prems show ?thesis by simp
  next
    case (Suc k)
    with Cons.prems have nx: "\<not> P x" by auto
    have "\<forall>j<k. \<not> P (xs ! j)"
      using Cons.prems(3) Suc by auto
    with Cons.IH [of k] Cons.prems(1,2) Suc have "hd (filter P xs) = xs ! k" by simp
    with nx Suc show ?thesis by simp
  qed
qed

lemma fmul_right_commute: "fmul (fmul v a) b = fmul (fmul v b) a"
  by (cases v; cases a; cases b)
     (auto simp: inf_of_sign_def sgn_if mult_less_0_iff zero_less_mult_iff split: if_splits)


section \<open>Resolution of renamed tickers\<close>

text \<open>
  C9. A query ticker found in the \<open>old_ticker\<close> column is resolved as the old side of
  a rename, whether or not it is also found in the \<open>new_ticker\<close> column; only a ticker
  that is in no row's \<open>old_ticker\<close> is looked up in the \<open>new_ticker\<close> column. In both
  cases the row used is the first one that matches: no earlier row matches, and the other
  ticker and the effective date are read from it.
\<close>

theorem resolve_tickers_first_match:
  "(t \<in> set (map old_ticker cs) \<longrightarrow>
      (\<exists>i<length cs. old_ticker (cs ! i) = t \<and> (\<forall>j<i. old_ticker (cs ! j) \<noteq> t) \<and>
         resolve_tickers cs t = (t, new_ticker (cs ! i), Some (effective_date (cs ! i))))) \<and>
   (t \<notin> set (map old_ticker cs) \<and> t \<in> set (map new_ticker cs) \<longrightarrow>
      (\<exists>i<length cs. new_ticker (cs ! i) = t \<and> (\<forall>j<i. new_ticker (cs ! j) \<noteq> t) \<and>
         resolve_tickers cs t = (old_ticker (cs ! i), t, Some (effective_date (cs ! i)))))"
proof (intro conjI impI)
  assume "t \<in> set (map old_ticker cs)"
  then have ex: "\<exists>r\<in>set cs. old_ticker r = t" by auto
  from hd_filter_first [of cs "\<lambda>r. old_ticker r = t", OF ex]
  obtain i where "i < length cs" "old_ticker (cs ! i) = t" "\<forall>j<i. old_ticker (cs ! j) \<noteq> t"
    "hd (filter (\<lambda>r. old_ticker r = t) cs) = cs ! i" by blast
  moreover have "resolve_tickers cs t =
      (t, new_ticker (hd (filter (\<lambda>r. old_ticker r = t) cs)),
       Some (effective_date (hd (filter (\<lambda>r. old_ticker r = t) cs))))"
    using \<open>t \<in> set (map old_ticker cs)\<close> by (simp add: resolve_tickers_def Let_def)
  ultimately show "\<exists>i<length cs. old_ticker (cs ! i) = t \<and> (\<forall>j<i. old_ticker (cs ! j) \<noteq> t) \<and>
         resolve_tickers cs t = (t, new_ticker (cs ! i), Some (effective_date (cs ! i)))"
    by auto
next
  assume a: "t \<notin> set (map old_ticker cs) \<and> t \<in> set (map new_ticker cs)"
  then have ex: "\<exists>r\<in>set cs. new_ticker r = t" by auto
  from hd_filter_first [of cs "\<lambda>r. new_ticker r = t", OF ex]
  obtain i where "i < length cs" "new_ticker (cs ! i) = t" "\<forall>j<i. new_ticker (cs ! j) \<noteq> t"
    "hd (filter (\<lambda>r. new_ticker r = t) cs) = cs ! i" by blast
  moreover have "resolve_tickers cs t =
      (old_ticker (hd (filter (\<lambda>r. new_ticker r = t) cs)), t,
       Some (effective_date (hd (filter (\<lambda>r. new_ticker r = t) cs))))"
    using a by (simp add: resolve_tickers_def Let_def)
  ultimately show "\<exists>i<length cs. new_ticker (cs ! i) = t \<and> (\<forall>j<i. new_ticker (cs ! j) \<noteq> t) \<and>
         resolve_tickers cs t = (old_ticker (cs ! i), t, Some (effective_date (cs ! i)))"
    by auto
qed

theorem resolve_tickers_first_match_witness:
  "''BBB'' \<in> set (map old_ticker ex_changes) \<and> ''BBB'' \<in> set (map new_ticker ex_changes) \<and>
   (\<exists>i<length ex_changes. old_ticker (ex_changes ! i) = ''BBB'' \<and>
      (\<forall>j<i. old_ticker (ex_changes ! j) \<noteq> ''BBB'') \<and>
      resolve_tickers ex_changes ''BBB'' =
        (''BBB'', new_ticker (ex_changes ! i), Some (effective_date (ex_changes ! i)))) \<and>
   resolve_tickers ex_changes ''BBB'' = (''BBB'', ''CCC'', Some 20) \<and>
   ''DDD'' \<notin> set (map old_ticker ex_changes) \<and> ''DDD'' \<in> set (map new_ticker ex_changes) \<and>
   (\<exists>i<length ex_changes. new_ticker (ex_changes ! i) = ''DDD'' \<and>
      (\<forall>j<i. new_ticker (ex_changes ! j) \<noteq> ''DDD'') \<and>
      resolve_tickers ex_changes ''DDD'' =
        (old_ticker (ex_changes ! i), ''DDD'', Some (effective_date (ex_changes ! i)))) \<and>
   resolve_tickers ex_changes ''DDD'' = (''BBB'', ''DDD'', Some 30)"
proof -
  have m: "''BBB'' \<in> set (map old_ticker ex_changes)" "''BBB'' \<in> set (map new_ticker ex_changes)"
    "''DDD'' \<notin> set (map old_ticker ex_changes)" "''DDD'' \<in> set (map new_ticker ex_changes)"
    by (simp_all add: ex_changes_def)
  have v: "resolve_tickers ex_changes ''BBB'' = (''BBB'', ''CCC'', Some 20)"
    "resolve_tickers ex_changes ''DDD'' = (''BBB'', ''DDD'', Some 30)"
    by (simp_all add: resolve_tickers_def ex_changes_def)
  from m v resolve_tickers_first_match [of "''BBB''" ex_changes]
    resolve_tickers_first_match [of "''DDD''" ex_changes]
  show ?thesis by blast
qed

section \<open>Pivoting\<close>

text \<open>
  C10. When the rows hold the same (date, ticker) pair two or more times, the input is
  accepted and the cell of the pivoted table for that date and ticker is the arithmetic
  mean of the close prices of those rows: their sum divided by their number.
\<close>

theorem pivot_table_averages_duplicates:
  assumes "ps = map close_price (filter (\<lambda>r. date r = d \<and> ticker r = t) rows)"
    and "2 \<le> length ps"
  shows "\<exists>df. transform_prices_to_DataFrame df_headers_expected rows = Inr df \<and>
           d \<in> set (index df) \<and> t \<in> set (columns df) \<and>
           cell df d t = Fin (sum_list ps / of_nat (length ps))"
proof -
  have hdr: "find (\<lambda>header. header \<notin> set df_headers_expected) df_headers_expected = None"
    by (simp add: find_None_iff)
  from assms have ne: "filter (\<lambda>r. date r = d \<and> ticker r = t) rows \<noteq> []"
    by auto
  then obtain r where r: "r \<in> set rows" "date r = d" "ticker r = t"
    by (metis (mono_tags, lifting) filter_False)
  have "d \<in> set (index (pivot_table rows))"
    using r by (auto simp: pivot_table_def)
  moreover have "t \<in> set (columns (pivot_table rows))"
    using r by (auto simp: pivot_table_def)
  moreover have "cell (pivot_table rows) d t = Fin (sum_list ps / of_nat (length ps))"
    using assms ne by (simp add: pivot_table_def mean_def)
  moreover have "transform_prices_to_DataFrame df_headers_expected rows = Inr (pivot_table rows)"
    by (simp add: transform_prices_to_DataFrame_def hdr)
  ultimately show ?thesis by blast
qed

theorem pivot_table_averages_duplicates_witness:
  "map close_price (filter (\<lambda>r. date r = 739251 \<and> ticker r = ''AAA'') ex_rows_dup) = [110, 114] \<and>
   (2::nat) \<le> length [110, 114 :: rat] \<and>
   (\<exists>df. transform_prices_to_DataFrame df_headers_expected ex_rows_dup = Inr df \<and>
      739251 \<in> set (index df) \<and> ''AAA'' \<in> set (columns df) \<and>
      cell df 739251 ''AAA'' = Fin 112)"
proof -
  have ps: "[110, 114] = map close_price (filter (\<lambda>r. date r = 739251 \<and> ticker r = ''AAA'') ex_rows_dup)"
    by (simp add: ex_rows_dup_def)
  have len: "2 \<le> length [110, 114 :: rat]" by simp
  have "\<exists>df. transform_prices_to_DataFrame df_headers_expected ex_rows_dup = Inr df \<and>
      739251 \<in> set (index df) \<and> ''AAA'' \<in> set (columns df) \<and>
      cell df 739251 ''AAA'' = Fin (sum_list [110, 114] / of_nat (length [110, 114 :: rat]))"
    by (rule pivot_table_averages_duplicates [OF ps len])
  then have "\<exists>df. transform_prices_to_DataFrame df_headers_expected ex_rows_dup = Inr df \<and>
      739251 \<in> set (index df) \<and> ''AAA'' \<in> set (columns df) \<and>
      cell df 739251 ''AAA'' = Fin 112"
    by simp
  with ps [symmetric] len show ?thesis by blast
qed

section \<open>The return over the window\<close>









text \<open>
  C6, as the code has it. The return computation has no guard on the number of
  observations or on the base price. It fails exactly when the windowed slice is empty,
  with the IndexError of \<open>iloc\<close>; on any other slice it returns a value, and on a slice
  of one observation with a finite non-zero price that value is 0.
\<close>

theorem compute_return_fails_only_on_empty_slice:
  "(slice_from s b = [] \<longrightarrow> compute_return s b = Inl IndexError) \<and>
   (slice_from s b \<noteq> [] \<longrightarrow> (\<exists>r. compute_return s b = Inr r)) \<and>
   (slice_from s b = [(d, Fin p)] \<and> p \<noteq> 0 \<longrightarrow> compute_return s b = Inr (Fin 0))"
  by (simp add: compute_return_def Let_def round_half_even_def)

theorem compute_return_fails_only_on_empty_slice_witness:
  "slice_from [(739200, Fin 7)] 739250 = [] \<and>
   compute_return [(739200, Fin 7)] 739250 = Inl IndexError \<and>
   slice_from [(739200, Fin 7), (739251, Fin 8)] 739250 = [(739251, Fin 8)] \<and>
   compute_return [(739200, Fin 7), (739251, Fin 8)] 739250 = Inr (Fin 0)"
  using compute_return_fails_only_on_empty_slice [of "[(739200, Fin 7)]" 739250]
    compute_return_fails_only_on_empty_slice [of "[(739200, Fin 7), (739251, Fin 8)]" 739250 739251 8]
  by (simp add: slice_from_def)

text \<open>
  The claim C6 as stated fails: a window of one observation returns 0, a negative base
  price returns a finite number and a zero base price returns an infinity.
\<close>

theorem compute_return_guards_counterexample:
  "length (slice_from [(739251, Fin 8)] 739250) < 2 \<and>
   compute_return [(739251, Fin 8)] 739250 = Inr (Fin 0) \<and>
   compute_return [(739250, Fin (- 2)), (739251, Fin 1)] 739250 = Inr (Fin (- 150)) \<and>
   compute_return [(739250, Fin 0), (739251, Fin 1)] 739250 = Inr PInf"
  by code_simp

section \<open>Split adjustment\<close>

lemma split_step_no_row: "t \<notin> set (map s_ticker sp) \<Longrightarrow> split_step sp s t = s"
  by (simp add: split_step_def)

lemma split_step_row:
  "t \<in> set (map s_ticker sp) \<Longrightarrow>
   split_step sp s t =
     map (\<lambda>x. (fst x,
                if s_effective_date (hd (filter (\<lambda>r. s_ticker r = t) sp)) \<le> fst x
                then fmul (snd x) (fdiv (Fin (to_quantity (hd (filter (\<lambda>r. s_ticker r = t) sp))))
                                        (Fin (from_quantity (hd (filter (\<lambda>r. s_ticker r = t) sp)))))
                else snd x)) s"
  by (simp add: split_step_def Let_def)

lemma map_fst_split_step: "map fst (split_step sp s t) = map fst s"
  by (cases "t \<in> set (map s_ticker sp)") (simp_all add: split_step_row split_step_no_row comp_def)


lemma split_step_commute:
  "split_step sp (split_step sp s t) u = split_step sp (split_step sp s u) t"
  by (cases "t \<in> set (map s_ticker sp)"; cases "u \<in> set (map s_ticker sp)")
     (simp_all add: split_step_row split_step_no_row comp_def fmul_right_commute)


text \<open>
  C1, as the code has it. For a ticker of the chain with a split row, a turn of the
  split loop uses the first split row of that ticker: it keeps the dates of the series,
  multiplies exactly the prices dated on or after that row's effective date by
  \<open>to_quantity / from_quantity\<close>, and leaves every price dated strictly before the
  effective date unchanged.
\<close>

theorem split_step_scales_on_or_after:
  assumes "i < length sp" and "s_ticker (sp ! i) = t" and "\<forall>j<i. s_ticker (sp ! j) \<noteq> t"
  shows "map fst (split_step sp s t) = map fst s \<and>
         (\<forall>k<length s. snd (split_step sp s t ! k) =
            (if s_effective_date (sp ! i) \<le> fst (s ! k)
             then fmul (snd (s ! k)) (fdiv (Fin (to_quantity (sp ! i))) (Fin (from_quantity (sp ! i))))
             else snd (s ! k)))"
proof -
  have h: "hd (filter (\<lambda>r. s_ticker r = t) sp) = sp ! i"
    using assms by (intro hd_filter_nth) simp_all
  have m: "t \<in> set (map s_ticker sp)"
    using assms(1,2) by (metis length_map nth_map nth_mem)
  show ?thesis
    by (simp add: map_fst_split_step) (simp add: split_step_row [OF m] h)
qed

theorem split_step_scales_on_or_after_witness:
  "(0::nat) < length ex_splits \<and> s_ticker (ex_splits ! 0) = ''AAA'' \<and>
   map fst (split_step ex_splits ex_series ''AAA'') = map fst ex_series \<and>
   split_step ex_splits ex_series ''AAA'' =
     [(739240, Fin 90), (739246, Fin 300), (739250, Fin 312), (739251, Fin 330)]"
proof -
  have a: "(0::nat) < length ex_splits" "s_ticker (ex_splits ! 0) = ''AAA''"
    "\<forall>j<0::nat. s_ticker (ex_splits ! j) \<noteq> ''AAA''"
    by (simp_all add: ex_splits_def)
  have v: "split_step ex_splits ex_series ''AAA'' =
     [(739240, Fin 90), (739246, Fin 300), (739250, Fin 312), (739251, Fin 330)]"
    by (simp add: split_step_def ex_splits_def ex_series_def)
  from split_step_scales_on_or_after [OF a, of ex_series] a(1,2) v show ?thesis by simp
qed

text \<open>
  The claim C1 as stated fails on the \<open>XYZ\<close> scenario: the price dated strictly before
  the effective date is not multiplied by the ratio, and the price dated on the
  effective date is changed.
\<close>

theorem split_before_counterexample:
  "738579 < s_effective_date (hd ex_xyz_splits) \<and>
   snd (split_step ex_xyz_splits [(738579, Fin 50), (738580, Fin 26)] ''XYZ'' ! 0) = Fin 50 \<and>
   Fin 50 \<noteq> fmul (Fin 50) (fdiv (Fin (to_quantity (hd ex_xyz_splits))) (Fin (from_quantity (hd ex_xyz_splits)))) \<and>
   s_effective_date (hd ex_xyz_splits) \<le> 738580 \<and>
   snd (split_step ex_xyz_splits [(738579, Fin 50), (738580, Fin 26)] ''XYZ'' ! 1) = Fin 52 \<and>
   Fin 52 \<noteq> Fin 26"
  by (simp add: split_step_def ex_xyz_splits_def)





text \<open>
  The order in which the set of the two tickers is listed does not change the adjusted
  series: the two turns of the split loop commute, the finite values being exact.
\<close>

theorem split_loop_order_irrelevant:
  "account_for_stock_splits True sp old new s = account_for_stock_splits False sp old new s"
  by (simp add: account_for_stock_splits_def tickers_of_def split_step_commute)

section \<open>Stitching the old and the new ticker\<close>

lemma filter_le_sorted_distinct:
  "sorted xs \<Longrightarrow> distinct xs \<Longrightarrow> (e::int) \<in> set xs \<Longrightarrow>
   filter (\<lambda>d. d \<le> e) xs = filter (\<lambda>d. d < e) xs @ [e]"
proof (induction xs)
  case Nil
  then show ?case by simp
next
  case (Cons x xs)
  show ?case
  proof (cases "x = e")
    case True
    with Cons.prems have "\<forall>y\<in>set xs. e < y"
      by (auto simp: order_less_le)
    then have "filter (\<lambda>d. d \<le> e) xs = []" "filter (\<lambda>d. d < e) xs = []"
      by (auto simp: filter_empty_conv)
    with True show ?thesis by simp
  next
    case False
    with Cons.prems have "e \<in> set xs" "x < e" by auto
    with Cons show ?thesis by simp
  qed
qed

lemma sorted_index_pivot_table:
  "sorted (index (df_slice_to (pivot_table rows) e)) \<and> distinct (index (df_slice_to (pivot_table rows) e))"
  by (simp add: df_slice_to_def pivot_table_def sorted_wrt_filter)

lemma getitem_present:
  "t \<in> set (columns df) \<Longrightarrow> getitem df t = Inr (map (\<lambda>d. (d, cell df d t)) (index df))"
  by (simp add: getitem_def)

lemma combine_present:
  "old \<in> set (columns df) \<Longrightarrow> new \<in> set (columns df) \<Longrightarrow>
   combine_changed_tickers df old new eff =
     Inr (map (\<lambda>d. (d, cell df d old)) (butlast (filter (\<lambda>d. d \<le> eff) (index df))) @
          map (\<lambda>d. (d, cell df d new)) (filter (\<lambda>d. eff \<le> d) (index df)))"
  by (simp add: combine_changed_tickers_def getitem_present slice_to_def slice_from_def
      filter_map comp_def map_butlast)

text \<open>
  C2, at a failing input. The rename is effective on a date that is not in the table.
  The inclusive slice \<open>[:effective_date]\<close> then ends on the last date before the
  effective date, and \<open>[:-1]\<close> drops that date: the stitched series lacks the price of
  2024-12-27, which the series of the specification has, and the printed 5-day return is
  0.94 where the specified series gives 7.00.
\<close>

theorem combine_changed_tickers_drops_date:
  "739248 \<notin> set (index (pivot_table ex_weekend_rows)) \<and>
   combine_changed_tickers (pivot_table ex_weekend_rows) ''FB'' ''META'' 739248 =
     Inr [(739240, Fin 190), (739250, Fin 212), (739251, Fin 214)] \<and>
   spec_stitch (pivot_table ex_weekend_rows) ''FB'' ''META'' 739248 =
     [(739240, Fin 190), (739247, Fin 200), (739250, Fin 212), (739251, Fin 214)] \<and>
   main True df_headers_expected ex_weekend_rows [''main.py'', ''FB'', ''5 days''] ex_weekend_changes [] =
     Inr (Fin (47 / 50)) \<and>
   compute_return (spec_stitch (pivot_table ex_weekend_rows) ''FB'' ''META'' 739248) (analysis_end - 5) =
     Inr (Fin 7)"
  by code_simp

text \<open>
  When the effective date is a date of the price table, the stitched series is the one
  of the specification: the old ticker strictly before the effective date, the new
  ticker from it on.
\<close>

theorem combine_changed_tickers_strict_cut:
  assumes "df = df_slice_to (pivot_table rows) e"
    and "eff \<in> set (index df)" and "old \<in> set (columns df)" and "new \<in> set (columns df)"
  shows "combine_changed_tickers df old new eff = Inr (spec_stitch df old new eff)"
proof -
  have "sorted (index df)" "distinct (index df)"
    using sorted_index_pivot_table [of rows e] assms(1) by simp_all
  then have "butlast (filter (\<lambda>d. d \<le> eff) (index df)) = filter (\<lambda>d. d < eff) (index df)"
    using assms(2) by (simp add: filter_le_sorted_distinct)
  then show ?thesis
    using assms(3,4) by (simp add: combine_present spec_stitch_def)
qed

theorem combine_changed_tickers_strict_cut_witness:
  "739251 \<in> set (index (df_slice_to (pivot_table ex_meta_rows) analysis_end)) \<and>
   ''FB'' \<in> set (columns (df_slice_to (pivot_table ex_meta_rows) analysis_end)) \<and>
   ''META'' \<in> set (columns (df_slice_to (pivot_table ex_meta_rows) analysis_end)) \<and>
   combine_changed_tickers (df_slice_to (pivot_table ex_meta_rows) analysis_end) ''FB'' ''META'' 739251 =
     Inr (spec_stitch (df_slice_to (pivot_table ex_meta_rows) analysis_end) ''FB'' ''META'' 739251) \<and>
   spec_stitch (df_slice_to (pivot_table ex_meta_rows) analysis_end) ''FB'' ''META'' 739251 =
     [(739250, Fin 200), (739251, Fin 210)]"
proof -
  have a: "739251 \<in> set (index (df_slice_to (pivot_table ex_meta_rows) analysis_end))"
    "''FB'' \<in> set (columns (df_slice_to (pivot_table ex_meta_rows) analysis_end))"
    "''META'' \<in> set (columns (df_slice_to (pivot_table ex_meta_rows) analysis_end))"
    by (simp_all add: df_slice_to_def pivot_table_def ex_meta_rows_def analysis_end_def)
  have v: "spec_stitch (df_slice_to (pivot_table ex_meta_rows) analysis_end) ''FB'' ''META'' 739251 =
     [(739250, Fin 200), (739251, Fin 210)]"
    by code_simp
  from combine_changed_tickers_strict_cut [OF refl a] a v show ?thesis by simp
qed

text \<open>
  Whatever the effective date, the dates of the stitched series are in ascending order
  and none is repeated.
\<close>

theorem combine_changed_tickers_ascending:
  assumes "df = df_slice_to (pivot_table rows) e"
    and "combine_changed_tickers df old new eff = Inr s"
  shows "sorted (map fst s) \<and> distinct (map fst s)"
proof -
  let ?a = "butlast (filter (\<lambda>d. d \<le> eff) (index df))"
  let ?b = "filter (\<lambda>d. eff \<le> d) (index df)"
  have sd: "sorted (index df)" "distinct (index df)"
    using sorted_index_pivot_table [of rows e] assms(1) by simp_all
  from assms(2) have cols: "old \<in> set (columns df)" "new \<in> set (columns df)"
    by (auto simp: combine_changed_tickers_def getitem_def split: if_splits)
  with assms(2) have s: "map fst s = ?a @ ?b"
    by (auto simp: combine_present comp_def)
  have lt: "\<forall>x\<in>set ?a. x < eff"
  proof (cases "eff \<in> set (index df)")
    case True
    with sd show ?thesis by (simp add: filter_le_sorted_distinct)
  next
    case False
    have "\<forall>x\<in>set (filter (\<lambda>d. d \<le> eff) (index df)). x < eff"
      using False by (auto simp: order_less_le)
    then show ?thesis by (meson in_set_butlastD)
  qed
  have "sorted (filter (\<lambda>d. d \<le> eff) (index df))" "distinct (filter (\<lambda>d. d \<le> eff) (index df))"
    using sd by (simp_all add: sorted_wrt_filter)
  then have a: "sorted ?a" "distinct ?a"
    by (simp_all add: sorted_butlast distinct_butlast)
  have b: "sorted ?b" "distinct ?b"
    using sd by (simp_all add: sorted_wrt_filter)
  have "sorted (?a @ ?b)"
    using a(1) b(1) lt by (fastforce simp: sorted_append)
  moreover have "distinct (?a @ ?b)"
    using a(2) b(2) lt by fastforce
  ultimately show ?thesis by (simp add: s)
qed

theorem combine_changed_tickers_ascending_witness:
  "combine_changed_tickers (df_slice_to (pivot_table ex_weekend_rows) analysis_end) ''FB'' ''META'' 739248 =
     Inr [(739240, Fin 190), (739250, Fin 212), (739251, Fin 214)] \<and>
   sorted (map fst [(739240 :: int, Fin 190), (739250, Fin 212), (739251, Fin 214)]) \<and>
   distinct (map fst [(739240 :: int, Fin 190), (739250, Fin 212), (739251, Fin 214)])"
proof -
  have v: "combine_changed_tickers (df_slice_to (pivot_table ex_weekend_rows) analysis_end) ''FB'' ''META'' 739248 =
     Inr [(739240, Fin 190), (739250, Fin 212), (739251, Fin 214)]"
    by code_simp
  from combine_changed_tickers_ascending [OF refl v] v show ?thesis by simp
qed

section \<open>The whole run\<close>

lemma pipeline_args:
  assumes "3 \<le> length argv" and "argv ! 1 = t" and "argv ! 2 = w" and "t \<in> set (columns df)"
  shows "pipeline b df argv cs sp =
     (case map_of dict_timeframes w of
        None \<Rightarrow> Inl (ValueError_timeframe w)
      | Some n \<Rightarrow>
          (case account_for_ticker_changes df cs t of
             Inl e \<Rightarrow> Inl e
           | Inr s \<Rightarrow>
               (case resolve_tickers cs t of
                  (old, new, _) \<Rightarrow>
                    compute_return (account_for_stock_splits b sp old new s) (analysis_end - n))))"
  unfolding pipeline_def Let_def assms(2,3) using assms(1,4) by simp







text \<open>
  C8. With a ticker and a timeframe on the command line, the run fails when the query
  ticker has no column in the price table, with the ValueError of the program ("Price
  data not found for ticker"). With a valid timeframe, it also fails when the query
  resolves to a rename and the old or the new ticker has no column: with that
  ValueError if the missing one is the query ticker, otherwise with the KeyError of the
  column lookup for the missing ticker. No result is returned in either case.
\<close>

theorem missing_ticker_fails:
  "(3 \<le> length argv \<and> argv ! 1 \<notin> set (columns df) \<longrightarrow>
      pipeline b df argv cs sp = Inl (ValueError_ticker (argv ! 1))) \<and>
   (3 \<le> length argv \<and> argv ! 2 \<in> set (map fst dict_timeframes) \<and>
    resolve_tickers cs (argv ! 1) = (old, new, Some eff) \<and>
    (old \<notin> set (columns df) \<or> new \<notin> set (columns df)) \<longrightarrow>
      pipeline b df argv cs sp \<in>
        {Inl (ValueError_ticker (argv ! 1)), Inl (KeyError old), Inl (KeyError new)})"
proof (intro conjI impI)
  assume "3 \<le> length argv \<and> argv ! 1 \<notin> set (columns df)"
  then show "pipeline b df argv cs sp = Inl (ValueError_ticker (argv ! 1))"
    by (simp add: pipeline_def Let_def)
next
  assume a: "3 \<le> length argv \<and> argv ! 2 \<in> set (map fst dict_timeframes) \<and>
    resolve_tickers cs (argv ! 1) = (old, new, Some eff) \<and>
    (old \<notin> set (columns df) \<or> new \<notin> set (columns df))"
  then obtain n where n: "map_of dict_timeframes (argv ! 2) = Some n"
    by (metis (no_types, lifting) domD dom_map_of_conv_image_fst set_map)
  have c: "account_for_ticker_changes df cs (argv ! 1) = Inl (KeyError old) \<or>
           account_for_ticker_changes df cs (argv ! 1) = Inl (KeyError new)"
    using a by (auto simp: account_for_ticker_changes_def combine_changed_tickers_def getitem_def)
  show "pipeline b df argv cs sp \<in>
        {Inl (ValueError_ticker (argv ! 1)), Inl (KeyError old), Inl (KeyError new)}"
  proof (cases "argv ! 1 \<in> set (columns df)")
    case True
    with a have "pipeline b df argv cs sp =
       (case map_of dict_timeframes (argv ! 2) of
          None \<Rightarrow> Inl (ValueError_timeframe (argv ! 2))
        | Some n \<Rightarrow>
            (case account_for_ticker_changes df cs (argv ! 1) of
               Inl e \<Rightarrow> Inl e
             | Inr s \<Rightarrow>
                 (case resolve_tickers cs (argv ! 1) of
                    (old, new, _) \<Rightarrow>
                      compute_return (account_for_stock_splits b sp old new s) (analysis_end - n))))"
      by (intro pipeline_args) simp_all
    with n c show ?thesis by auto
  next
    case False
    with a show ?thesis by (simp add: pipeline_def Let_def)
  qed
qed

theorem missing_ticker_fails_witness:
  "''META'' \<notin> set (columns (pivot_table ex_fb_only_rows)) \<and>
   pipeline True (pivot_table ex_fb_only_rows) [''main.py'', ''META'', ''1 day''] ex_changes_fb [] =
     Inl (ValueError_ticker ''META'') \<and>
   ''1 day'' \<in> set (map fst dict_timeframes) \<and>
   resolve_tickers ex_changes_fb ''FB'' = (''FB'', ''META'', Some 739251) \<and>
   pipeline True (pivot_table ex_fb_only_rows) [''main.py'', ''FB'', ''1 day''] ex_changes_fb [] =
     Inl (KeyError ''META'')"
proof -
  have a: "''META'' \<notin> set (columns (pivot_table ex_fb_only_rows))"
    "''1 day'' \<in> set (map fst dict_timeframes)"
    "resolve_tickers ex_changes_fb ''FB'' = (''FB'', ''META'', Some 739251)"
    by (simp_all add: pivot_table_def ex_fb_only_rows_def dict_timeframes_def
        resolve_tickers_def ex_changes_fb_def)
  have v: "pipeline True (pivot_table ex_fb_only_rows) [''main.py'', ''FB'', ''1 day''] ex_changes_fb [] =
     Inl (KeyError ''META'')"
    by code_simp
  from missing_ticker_fails [where argv = "[''main.py'', ''META'', ''1 day'']"
      and df = "pivot_table ex_fb_only_rows" and b = True and cs = ex_changes_fb and sp = "[]"] a(1)
  have "pipeline True (pivot_table ex_fb_only_rows) [''main.py'', ''META'', ''1 day''] ex_changes_fb [] =
     Inl (ValueError_ticker ''META'')"
    by simp
  moreover from missing_ticker_fails [where argv = "[''main.py'', ''FB'', ''1 day'']"
      and df = "pivot_table ex_fb_only_rows" and b = True and cs = ex_changes_fb and sp = "[]"
      and old = "''FB''" and new = "''META''" and eff = 739251] a
  have "pipeline True (pivot_table ex_fb_only_rows) [''main.py'', ''FB'', ''1 day''] ex_changes_fb [] \<in>
      {Inl (ValueError_ticker ''FB''), Inl (KeyError ''FB''), Inl (KeyError ''META'')}"
    by simp
  ultimately show ?thesis using a v by simp
qed

end
